theory Spec2Isabelle
  imports Main
begin

section \<open>The OIDC trust-policy script \<^verbatim>\<open>scripts/aws/apply_oidc_trust_policy.py\<close>\<close>

text \<open>
  The script builds one IAM trust-policy document, replaces the trust policy of one role
  by it and reads the role back. A Python \<^verbatim>\<open>str\<close> is a \<^typ>\<open>string\<close> holding its
  UTF-8 bytes, so that ASCII text is the text itself.
\<close>

subsection \<open>JSON values\<close>

text \<open>
  The values that \<^verbatim>\<open>json.dumps\<close> accepts and that the script handles: \<^verbatim>\<open>None\<close>,
  booleans, integers, strings, lists, and dicts with string keys. A dict is the list of
  its items in insertion order; the keys of a Python dict are distinct.
\<close>

datatype json =
    JNull
  | JBool bool
  | JInt int
  | JStr string
  | JList "json list"
  | JObj "(string \<times> json) list"

text \<open>\<^verbatim>\<open>d.get(k)\<close> on a value: \<open>None\<close> when the key is absent or the value is no dict.\<close>

fun getitem :: "json \<Rightarrow> string \<Rightarrow> json option" where
  "getitem (JObj kvs) k = map_of kvs k"
| "getitem _ k = None"

text \<open>A chain of subscripts \<^verbatim>\<open>d[k1][k2]...\<close>.\<close>

fun path :: "json \<Rightarrow> string list \<Rightarrow> json option" where
  "path d [] = Some d"
| "path d (k # ks) = (case getitem d k of None \<Rightarrow> None | Some v \<Rightarrow> path v ks)"

text \<open>\<^verbatim>\<open>list(d.keys())\<close>.\<close>

fun keys_of :: "json \<Rightarrow> string list" where
  "keys_of (JObj kvs) = map fst kvs"
| "keys_of _ = []"

text \<open>The list \<^verbatim>\<open>d['Statement']\<close> of a policy document.\<close>

definition statements :: "json \<Rightarrow> json list" where
  "statements d = (case getitem d ''Statement'' of Some (JList xs) \<Rightarrow> xs | _ \<Rightarrow> [])"

subsection \<open>\<^verbatim>\<open>create_trust_policy\<close>\<close>

text \<open>
  The function returns a dict literal; the two f-strings interpolate its arguments.
  There is no check and no \<^verbatim>\<open>raise\<close> in it.
\<close>

definition create_trust_policy :: "string \<Rightarrow> string \<Rightarrow> json" where
  "create_trust_policy account_id github_repo =
     JObj [
       (''Version'', JStr ''2012-10-17''),
       (''Statement'', JList [
         JObj [
           (''Effect'', JStr ''Allow''),
           (''Principal'', JObj [
             (''Federated'', JStr (''arn:aws:iam::'' @ account_id @
                '':oidc-provider/token.actions.githubusercontent.com''))
           ]),
           (''Action'', JStr ''sts:AssumeRoleWithWebIdentity''),
           (''Condition'', JObj [
             (''StringEquals'', JObj [
               (''token.actions.githubusercontent.com:aud'', JStr ''sts.amazonaws.com'')
             ]),
             (''StringLike'', JObj [
               (''token.actions.githubusercontent.com:sub'',
                  JStr (''repo:'' @ github_repo @ '':*''))
             ])
           ])
         ]
       ])
     ]"

subsection \<open>\<^verbatim>\<open>json.dumps\<close>\<close>

text \<open>
  The standard library's encoder with its defaults (\<^verbatim>\<open>ensure_ascii=True\<close>), as the
  script calls it: without \<^verbatim>\<open>indent\<close> the separators are \<^verbatim>\<open>", "\<close> and \<^verbatim>\<open>": "\<close>,
  with \<^verbatim>\<open>indent=2\<close> every item starts a line and the item separator is \<^verbatim>\<open>","\<close>.
\<close>

text \<open>The code points of a UTF-8 byte string.\<close>

definition continuation :: "string \<Rightarrow> nat" where
  "continuation bs = foldl (\<lambda>a b. a * 64 + (of_char b - 128)) 0 bs"

fun utf8_decode :: "string \<Rightarrow> nat list" where
  "utf8_decode [] = []"
| "utf8_decode (c # s) =
     (let n = (of_char c :: nat) in
      if n < 128 then n # utf8_decode s
      else if n < 224 then
        ((n - 192) * 64 + continuation (take 1 s)) # utf8_decode (drop 1 s)
      else if n < 240 then
        ((n - 224) * 4096 + continuation (take 2 s)) # utf8_decode (drop 2 s)
      else
        ((n - 240) * 262144 + continuation (take 3 s)) # utf8_decode (drop 3 s))"

definition hex_digit :: "nat \<Rightarrow> char" where
  "hex_digit n = ''0123456789abcdef'' ! (n mod 16)"

text \<open>\<^verbatim>\<open>'\\u{0:04x}'.format(n)\<close>, for \<open>n\<close> below \<open>0x10000\<close>.\<close>

definition u_escape :: "nat \<Rightarrow> string" where
  "u_escape n =
     [CHR 0x5C, CHR ''u'', hex_digit (n div 4096), hex_digit (n div 256),
      hex_digit (n div 16), hex_digit n]"

text \<open>
  One code point inside a JSON string: the short escapes, printable ASCII as it is, and
  \<^verbatim>\<open>\uXXXX\<close> for the rest, a surrogate pair above the basic plane.
\<close>

definition escape_code_point :: "nat \<Rightarrow> string" where
  "escape_code_point n =
     (if n = 0x22 then [CHR 0x5C, CHR 0x22]
      else if n = 0x5C then [CHR 0x5C, CHR 0x5C]
      else if n = 0x0A then [CHR 0x5C, CHR ''n'']
      else if n = 0x0D then [CHR 0x5C, CHR ''r'']
      else if n = 0x09 then [CHR 0x5C, CHR ''t'']
      else if n = 0x08 then [CHR 0x5C, CHR ''b'']
      else if n = 0x0C then [CHR 0x5C, CHR ''f'']
      else if 0x20 \<le> n \<and> n \<le> 0x7E then [char_of n]
      else if n < 0x10000 then u_escape n
      else u_escape (0xD800 + ((n - 0x10000) div 1024) mod 1024)
         @ u_escape (0xDC00 + (n - 0x10000) mod 1024))"

definition encode_string :: "string \<Rightarrow> string" where
  "encode_string s = [CHR 0x22] @ concat (map escape_code_point (utf8_decode s)) @ [CHR 0x22]"

text \<open>\<^verbatim>\<open>sep.join(xs)\<close>.\<close>

fun join :: "string \<Rightarrow> string list \<Rightarrow> string" where
  "join sep [] = []"
| "join sep [x] = x"
| "join sep (x # y # ys) = x @ sep @ join sep (y # ys)"

text \<open>\<^verbatim>\<open>str(n)\<close> of a natural number and of an integer.\<close>

fun digits :: "nat \<Rightarrow> string" where
  "digits n = (if n < 10 then [hex_digit n] else digits (n div 10) @ [hex_digit (n mod 10)])"

definition str_int :: "int \<Rightarrow> string" where
  "str_int i = (if i < 0 then CHR ''-'' # digits (nat (- i)) else digits (nat i))"

text \<open>The line break and the indentation in front of an item at a nesting level.\<close>

fun newline_indent :: "nat option \<Rightarrow> nat \<Rightarrow> string" where
  "newline_indent None level = []"
| "newline_indent (Some indent) level = CHR 0x0A # replicate (indent * level) CHR '' ''"

fun item_separator :: "nat option \<Rightarrow> string" where
  "item_separator None = '', ''"
| "item_separator (Some indent) = '',''"

fun iterencode :: "nat option \<Rightarrow> nat \<Rightarrow> json \<Rightarrow> string" where
  "iterencode indent level JNull = ''null''"
| "iterencode indent level (JBool b) = (if b then ''true'' else ''false'')"
| "iterencode indent level (JInt i) = str_int i"
| "iterencode indent level (JStr s) = encode_string s"
| "iterencode indent level (JList xs) =
     (if xs = [] then ''[]''
      else ''['' @ newline_indent indent (Suc level)
        @ join (item_separator indent @ newline_indent indent (Suc level))
            (map (iterencode indent (Suc level)) xs)
        @ newline_indent indent level @ '']'')"
| "iterencode indent level (JObj kvs) =
     (if kvs = [] then ''{}''
      else ''{'' @ newline_indent indent (Suc level)
        @ join (item_separator indent @ newline_indent indent (Suc level))
            (map (\<lambda>kv. encode_string (fst kv) @ '': '' @ iterencode indent (Suc level) (snd kv)) kvs)
        @ newline_indent indent level @ ''}'')"

text \<open>\<^verbatim>\<open>json.dumps(obj)\<close> is \<open>json_dumps None obj\<close>, \<^verbatim>\<open>json.dumps(obj, indent=2)\<close> is
  \<open>json_dumps (Some 2) obj\<close>.\<close>

definition json_dumps :: "nat option \<Rightarrow> json \<Rightarrow> string" where
  "json_dumps indent obj = iterencode indent 0 obj"

subsection \<open>\<^verbatim>\<open>str.strip\<close>\<close>

text \<open>
  The characters for which \<^verbatim>\<open>str.isspace\<close> holds, in UTF-8: U+0009 to U+000D, U+001C to
  U+0020, U+0085, U+00A0, U+1680, U+2000 to U+200A, U+2028, U+2029, U+202F, U+205F and
  U+3000.
\<close>

definition whitespace :: "string list" where
  "whitespace =
     map (\<lambda>c. [c]) [CHR 0x09, CHR 0x0A, CHR 0x0B, CHR 0x0C, CHR 0x0D,
                     CHR 0x1C, CHR 0x1D, CHR 0x1E, CHR 0x1F, CHR 0x20]
     @ [[CHR 0xC2, CHR 0x85], [CHR 0xC2, CHR 0xA0], [CHR 0xE1, CHR 0x9A, CHR 0x80]]
     @ map (\<lambda>c. [CHR 0xE2, CHR 0x80, c])
         [CHR 0x80, CHR 0x81, CHR 0x82, CHR 0x83, CHR 0x84, CHR 0x85, CHR 0x86, CHR 0x87,
          CHR 0x88, CHR 0x89, CHR 0x8A, CHR 0xA8, CHR 0xA9, CHR 0xAF]
     @ [[CHR 0xE2, CHR 0x81, CHR 0x9F], [CHR 0xE3, CHR 0x80, CHR 0x80]]"

text \<open>Drop from the front every leading occurrence of one of the byte strings \<open>ws\<close>.\<close>

fun lstrip_chars :: "string list \<Rightarrow> string \<Rightarrow> string" where
  "lstrip_chars ws [] = []"
| "lstrip_chars ws (c # s) =
     (case find (\<lambda>w. w \<noteq> [] \<and> take (length w) (c # s) = w) ws of
        None \<Rightarrow> c # s
      | Some w \<Rightarrow> lstrip_chars ws (drop (length w - 1) s))"

definition strip :: "string \<Rightarrow> string" where
  "strip s = rev (lstrip_chars (map rev whitespace) (rev (lstrip_chars whitespace s)))"

subsection \<open>The world around \<^verbatim>\<open>main\<close>\<close>

text \<open>
  What a call into a library does: it returns a value, raises botocore's
  \<^verbatim>\<open>ClientError\<close>, or raises another \<^verbatim>\<open>Exception\<close>; an exception is kept as its text
  \<^verbatim>\<open>str(e)\<close>, the only thing the script reads from it.
\<close>

datatype 'a reply = Returns 'a | ClientError string | OtherException string

text \<open>
  The response of \<^verbatim>\<open>get_role\<close>: a dict whose values are dicts, as boto3 returns it
  (\<^verbatim>\<open>{'Role': {..., 'AssumeRolePolicyDocument': ...}, 'ResponseMetadata': {...}}\<close>).
\<close>

type_synonym response = "(string \<times> (string \<times> json) list) list"

text \<open>
  The environment of one run: the two lines typed at the prompts, and the IAM client with
  the service behind it as a state machine on \<^typ>\<open>'s\<close>. \<open>boto3_client\<close> takes the service
  name, \<^verbatim>\<open>region_name\<close>, \<^verbatim>\<open>aws_access_key_id\<close> and \<^verbatim>\<open>aws_secret_access_key\<close>;
  \<open>update_assume_role_policy\<close> takes \<^verbatim>\<open>RoleName\<close> and \<^verbatim>\<open>PolicyDocument\<close>; \<open>get_role\<close> takes
  \<^verbatim>\<open>RoleName\<close>. Both prompts are taken to return (no end of input, no interrupt), and
  \<^verbatim>\<open>print\<close> not to fail.

  The line between the script and its environment is the method call. A reply is what
  one invocation of a method of the client hands back to the script: what it returns, or
  the exception that leaves it. Whatever the client library does inside one invocation
  (signing and sending the request, sending it again after a transient answer of the
  service, waiting in between) is the library's and lies behind that line; the model
  neither describes nor excludes it, and the number of requests that reach the service
  is not what \<open>calls\<close> counts.
\<close>

record 's env =
  input_reply :: string
  getpass_reply :: string
  boto3_client :: "string \<Rightarrow> string \<Rightarrow> string \<Rightarrow> string \<Rightarrow> 's reply"
  update_assume_role_policy :: "'s \<Rightarrow> string \<Rightarrow> string \<Rightarrow> unit reply \<times> 's"
  get_role :: "'s \<Rightarrow> string \<Rightarrow> response reply \<times> 's"

text \<open>The calls into boto3 that a run makes, with their arguments, in order.\<close>

datatype call =
    is_client: Boto3Client string string string string
  | is_update: UpdateAssumeRolePolicy string string
  | is_get_role: GetRole string

text \<open>
  What a run leaves behind: the argument of every \<^verbatim>\<open>print\<close> in order (an empty string
  for \<^verbatim>\<open>print()\<close>), the calls into boto3, and the exit code of the process (1 from
  \<^verbatim>\<open>sys.exit(1)\<close>, 0 when \<open>main\<close> returns).
\<close>

record run =
  printed :: "string list"
  calls :: "call list"
  exit_code :: nat

text \<open>The three glyphs of the messages, in UTF-8: U+2713, U+2717 and U+26A0.\<close>

definition check_mark :: string where
  "check_mark = [CHR 0xE2, CHR 0x9C, CHR 0x93]"

definition cross_mark :: string where
  "cross_mark = [CHR 0xE2, CHR 0x9C, CHR 0x97]"

definition warning_sign :: string where
  "warning_sign = [CHR 0xE2, CHR 0x9A, CHR 0xA0]"

text \<open>\<^verbatim>\<open>str(KeyError(k))\<close> for a plain key: the key in single quotes.\<close>

definition key_error :: "string \<Rightarrow> string" where
  "key_error k = [CHR 0x27] @ k @ [CHR 0x27]"

subsection \<open>\<^verbatim>\<open>main\<close>\<close>

text \<open>
  The body of \<^verbatim>\<open>main\<close>, statement by statement. \<open>p1\<close>, \<open>p2\<close>, ... are the lines
  printed so far, \<open>c1\<close>, \<open>c2\<close>, \<open>c3\<close> the calls made so far. In the last
  \<^verbatim>\<open>try\<close> block a missing key raises \<^verbatim>\<open>KeyError\<close>, which the second handler catches.
\<close>

definition main :: "'s env \<Rightarrow> run" where
  "main env =
    (let role_name = ''github-actions-role'';
         account_id = ''422017356244'';
         github_repo = ''cloudtolocalllm/cloudtolocalllm'';
         region = ''us-east-1'';
         p1 = [''GitHub Actions OIDC Trust Policy Setup'', replicate 40 CHR ''='', [],
               ''Enter AWS Root Credentials:'', []];
         access_key_id = strip (input_reply env);
         secret_access_key = getpass_reply env
     in
     if access_key_id = [] \<or> secret_access_key = [] then
       \<lparr>printed = p1 @ [cross_mark @ '' Credentials cannot be empty''],
        calls = [], exit_code = 1\<rparr>
     else
       let p2 = p1 @ [[], check_mark @ '' Credentials received'', []];
           trust_policy = create_trust_policy account_id github_repo;
           p3 = p2 @ [''Trust Policy:'', json_dumps (Some 2) trust_policy, []];
           c1 = [Boto3Client ''iam'' region access_key_id secret_access_key]
       in
       case boto3_client env ''iam'' region access_key_id secret_access_key of
         ClientError e \<Rightarrow>
           \<lparr>printed = p3 @ [cross_mark @ '' Failed to create IAM client: '' @ e],
            calls = c1, exit_code = 1\<rparr>
       | OtherException e \<Rightarrow>
           \<lparr>printed = p3 @ [cross_mark @ '' Failed to create IAM client: '' @ e],
            calls = c1, exit_code = 1\<rparr>
       | Returns iam_client \<Rightarrow>
           let p4 = p3 @ [''Updating IAM role trust policy...'', ''Role: '' @ role_name,
                          ''Region: '' @ region, []];
               policy_document = json_dumps None trust_policy;
               c2 = c1 @ [UpdateAssumeRolePolicy role_name policy_document]
           in
           (case update_assume_role_policy env iam_client role_name policy_document of
             (ClientError e, iam_client') \<Rightarrow>
               \<lparr>printed = p4 @ [cross_mark @ '' Failed to update trust policy: '' @ e],
                calls = c2, exit_code = 1\<rparr>
           | (OtherException e, iam_client') \<Rightarrow>
               \<lparr>printed = p4 @ [cross_mark @ '' Error: '' @ e],
                calls = c2, exit_code = 1\<rparr>
           | (Returns u, iam_client') \<Rightarrow>
               let p5 = p4 @ [check_mark @ '' Trust policy updated successfully'', [],
                              ''Verifying trust policy...''];
                   c3 = c2 @ [GetRole role_name];
                   p6 = p5 @
                     (case fst (get_role env iam_client' role_name) of
                        ClientError e \<Rightarrow>
                          [warning_sign @ '' Could not verify trust policy: '' @ e]
                      | OtherException e \<Rightarrow>
                          [warning_sign @ '' Error verifying: '' @ e]
                      | Returns response \<Rightarrow>
                          (case map_of response ''Role'' of
                             None \<Rightarrow>
                               [warning_sign @ '' Error verifying: '' @ key_error ''Role'']
                           | Some role \<Rightarrow>
                               (case map_of role ''AssumeRolePolicyDocument'' of
                                  None \<Rightarrow>
                                    [warning_sign @ '' Error verifying: ''
                                       @ key_error ''AssumeRolePolicyDocument'']
                                | Some current_policy \<Rightarrow>
                                    [check_mark @ '' Trust policy verified'', [],
                                     ''Current Trust Policy:'',
                                     json_dumps (Some 2) current_policy])))
               in
               \<lparr>printed = p6 @ [[], check_mark @ '' OIDC trust policy applied successfully'',
                            [], ''Next steps:'',
                            ''1. Trigger Deploy to AWS EKS workflow in GitHub'',
                            ''2. Monitor the workflow'',
                            ''3. Delete the root API key''],
                calls = c3, exit_code = 0\<rparr>))"

subsection \<open>Names for the arguments of a run\<close>

text \<open>The document that \<open>main\<close> builds, the three calls it can make, and their replies.\<close>

abbreviation built_policy :: json where
  "built_policy \<equiv> create_trust_policy ''422017356244'' ''cloudtolocalllm/cloudtolocalllm''"

abbreviation client_call :: "'s env \<Rightarrow> call" where
  "client_call env \<equiv>
     Boto3Client ''iam'' ''us-east-1'' (strip (input_reply env)) (getpass_reply env)"

abbreviation update_call :: call where
  "update_call \<equiv> UpdateAssumeRolePolicy ''github-actions-role'' (json_dumps None built_policy)"

abbreviation get_role_call :: call where
  "get_role_call \<equiv> GetRole ''github-actions-role''"

abbreviation client_reply :: "'s env \<Rightarrow> 's reply" where
  "client_reply env \<equiv>
     boto3_client env ''iam'' ''us-east-1'' (strip (input_reply env)) (getpass_reply env)"

abbreviation update_reply :: "'s env \<Rightarrow> 's \<Rightarrow> unit reply \<times> 's" where
  "update_reply env iam_client \<equiv>
     update_assume_role_policy env iam_client ''github-actions-role''
       (json_dumps None built_policy)"

abbreviation get_role_reply :: "'s env \<Rightarrow> 's \<Rightarrow> response reply \<times> 's" where
  "get_role_reply env iam_client \<equiv> get_role env iam_client ''github-actions-role''"

subsection \<open>Fake clients\<close>

text \<open>
  An environment whose client and service answer every call the same way, whatever the
  arguments: \<open>c\<close> to \<^verbatim>\<open>boto3.client\<close>, \<open>u\<close> to the update, \<open>g\<close> to \<^verbatim>\<open>get_role\<close>.
\<close>

definition fixed_env ::
  "string \<Rightarrow> string \<Rightarrow> unit reply \<Rightarrow> unit reply \<Rightarrow> response reply \<Rightarrow> unit env" where
  "fixed_env key secret c u g =
     \<lparr>input_reply = key, getpass_reply = secret,
      boto3_client = (\<lambda>service region_name key_id secret_key. c),
      update_assume_role_policy = (\<lambda>s role_name policy_document. (u, s)),
      get_role = (\<lambda>s role_name. (g, s))\<rparr>"

text \<open>A \<^verbatim>\<open>get_role\<close> response that holds the trust policy \<open>doc\<close>.\<close>

definition role_response :: "json \<Rightarrow> response" where
  "role_response doc =
     [(''Role'', [(''RoleName'', JStr ''github-actions-role''),
                  (''AssumeRolePolicyDocument'', doc)]),
      (''ResponseMetadata'', [(''HTTPStatusCode'', JInt 200)])]"

text \<open>
  A fake client, put in the place of the client object: its update method raises a
  \<^verbatim>\<open>ClientError\<close> for ServiceUnavailable the first \<open>N\<close> times the script invokes it and
  returns from then on; the state counts the invocations. \<open>N\<close> counts invocations of the
  method by the script, not answers of the service: an invocation that raises here
  stands for one in which the library has already given up on the request. \<^verbatim>\<open>get_role\<close>
  returns the document that \<open>main\<close> builds.
\<close>

definition service_unavailable :: string where
  "service_unavailable =
     ''An error occurred (ServiceUnavailable) when calling the UpdateAssumeRolePolicy operation: Service Unavailable''"

definition flaky_env :: "nat \<Rightarrow> nat env" where
  "flaky_env N =
     \<lparr>input_reply = ''AKIAEXAMPLE'', getpass_reply = ''secret'',
      boto3_client = (\<lambda>service region_name key_id secret_key. Returns 0),
      update_assume_role_policy =
        (\<lambda>k role_name policy_document.
           (if k < N then ClientError service_unavailable else Returns (), Suc k)),
      get_role = (\<lambda>k role_name. (Returns (role_response built_policy), k))\<rparr>"

text \<open>The text of an AccessDenied error on the update.\<close>

definition access_denied :: string where
  "access_denied =
     ''An error occurred (AccessDenied) when calling the UpdateAssumeRolePolicy operation: User is not authorized to perform: iam:UpdateAssumeRolePolicy''"

text \<open>
  A client whose service holds another trust policy than the one applied: the update
  succeeds, and \<^verbatim>\<open>get_role\<close> returns a document whose \<^verbatim>\<open>sub\<close> pattern names another
  repository.
\<close>

definition foreign_policy :: json where
  "foreign_policy = create_trust_policy ''422017356244'' ''mallory/fork''"

definition mismatch_env :: "unit env" where
  "mismatch_env =
     fixed_env ''AKIAEXAMPLE'' ''secret'' (Returns ()) (Returns ())
       (Returns (role_response foreign_policy))"

text \<open>A client whose update succeeds and whose \<^verbatim>\<open>get_role\<close> raises.\<close>

definition throttled :: string where
  "throttled =
     ''An error occurred (Throttling) when calling the GetRole operation: Rate exceeded''"

definition fetch_error_env :: "unit env" where
  "fetch_error_env =
     fixed_env ''AKIAEXAMPLE'' ''secret'' (Returns ()) (Returns ()) (ClientError throttled)"

text \<open>The seven lines that end a run whose update returned.\<close>

definition closing_lines :: "string list" where
  "closing_lines =
     [[], check_mark @ '' OIDC trust policy applied successfully'', [], ''Next steps:'',
      ''1. Trigger Deploy to AWS EKS workflow in GitHub'',
      ''2. Monitor the workflow'',
      ''3. Delete the root API key'']"

section \<open>Properties\<close>

subsection \<open>The document built\<close>

text \<open>
  C1. For every account id and repository slug the built document has the version
  \<^verbatim>\<open>2012-10-17\<close> and exactly one statement. Its effect is Allow, its principal is the
  federated ARN of GitHub's OIDC provider in that account, its action is
  \<^verbatim>\<open>sts:AssumeRoleWithWebIdentity\<close>, and its condition holds exactly two operators:
  \<^verbatim>\<open>StringEquals\<close> matching the \<^verbatim>\<open>aud\<close> claim to \<^verbatim>\<open>sts.amazonaws.com\<close>, and
  \<^verbatim>\<open>StringLike\<close> matching the \<^verbatim>\<open>sub\<close> claim to \<^verbatim>\<open>repo:{slug}:*\<close>. For the account
  \<^verbatim>\<open>123456789012\<close> and the slug \<^verbatim>\<open>acme/widget\<close> the \<^verbatim>\<open>sub\<close> condition is
  \<^verbatim>\<open>repo:acme/widget:*\<close> and the \<^verbatim>\<open>aud\<close> condition is \<^verbatim>\<open>sts.amazonaws.com\<close>.
\<close>

theorem create_trust_policy_document:
  "getitem (create_trust_policy account_id github_repo) ''Version'' = Some (JStr ''2012-10-17'')
   \<and> keys_of (create_trust_policy account_id github_repo) = [''Version'', ''Statement'']
   \<and> (\<exists>stmt. statements (create_trust_policy account_id github_repo) = [stmt]
        \<and> keys_of stmt = [''Effect'', ''Principal'', ''Action'', ''Condition'']
        \<and> getitem stmt ''Effect'' = Some (JStr ''Allow'')
        \<and> getitem stmt ''Principal'' =
            Some (JObj [(''Federated'', JStr (''arn:aws:iam::'' @ account_id @
                   '':oidc-provider/token.actions.githubusercontent.com''))])
        \<and> getitem stmt ''Action'' = Some (JStr ''sts:AssumeRoleWithWebIdentity'')
        \<and> getitem stmt ''Condition'' =
            Some (JObj [(''StringEquals'',
                         JObj [(''token.actions.githubusercontent.com:aud'',
                                JStr ''sts.amazonaws.com'')]),
                        (''StringLike'',
                         JObj [(''token.actions.githubusercontent.com:sub'',
                                JStr (''repo:'' @ github_repo @ '':*''))])]))
   \<and> map (\<lambda>stmt. path stmt [''Condition'', ''StringLike'',
                               ''token.actions.githubusercontent.com:sub''])
         (statements (create_trust_policy ''123456789012'' ''acme/widget''))
       = [Some (JStr ''repo:acme/widget:*'')]
   \<and> map (\<lambda>stmt. path stmt [''Condition'', ''StringEquals'',
                               ''token.actions.githubusercontent.com:aud''])
         (statements (create_trust_policy ''123456789012'' ''acme/widget''))
       = [Some (JStr ''sts.amazonaws.com'')]"
  by (simp add: create_trust_policy_def statements_def)

subsection \<open>The calls and the exit code of a run\<close>

text \<open>
  The calls and the exit code depend on the credentials typed, on the reply to
  \<^verbatim>\<open>boto3.client\<close> and on the reply to the update, and on nothing else.
\<close>

lemma calls_main:
  "calls (main env) =
     (if strip (input_reply env) = [] \<or> getpass_reply env = [] then []
      else case client_reply env of
             Returns iam_client \<Rightarrow>
               (case fst (update_reply env iam_client) of
                  Returns u \<Rightarrow> [client_call env, update_call, get_role_call]
                | ClientError e \<Rightarrow> [client_call env, update_call]
                | OtherException e \<Rightarrow> [client_call env, update_call])
           | ClientError e \<Rightarrow> [client_call env]
           | OtherException e \<Rightarrow> [client_call env])"
  by (simp add: main_def Let_def split: reply.split prod.split)

lemma exit_code_main:
  "exit_code (main env) =
     (if strip (input_reply env) = [] \<or> getpass_reply env = [] then 1
      else case client_reply env of
             Returns iam_client \<Rightarrow>
               (case fst (update_reply env iam_client) of
                  Returns u \<Rightarrow> 0
                | ClientError e \<Rightarrow> 1
                | OtherException e \<Rightarrow> 1)
           | ClientError e \<Rightarrow> 1
           | OtherException e \<Rightarrow> 1)"
  by (simp add: main_def Let_def split: reply.split prod.split)

text \<open>The credentials of the fake clients survive \<^verbatim>\<open>strip\<close>; blanks do not.\<close>

lemma strip_key: "strip ''AKIAEXAMPLE'' = ''AKIAEXAMPLE''"
  by code_simp

lemma strip_blank: "strip [CHR '' '', CHR 0x09, CHR '' ''] = []"
  by code_simp

text \<open>
  C9. If the access key id is empty once stripped, or the secret access key is empty, the
  run ends with exit code 1 and has made no call into boto3: no client was constructed
  and nothing was sent to the service. Its last message says that the credentials cannot
  be empty.
\<close>

theorem empty_credentials_exit:
  assumes "strip (input_reply env) = [] \<or> getpass_reply env = []"
  shows "exit_code (main env) = 1 \<and> calls (main env) = []
         \<and> last (printed (main env)) = cross_mark @ '' Credentials cannot be empty''"
  using assms by (auto simp add: main_def Let_def)

theorem empty_credentials_exit_witness:
  "(strip (input_reply (fixed_env [CHR '' '', CHR 0x09, CHR '' ''] ''secret''
        (Returns ()) (Returns ()) (Returns (role_response built_policy)))) = []
    \<or> getpass_reply (fixed_env [CHR '' '', CHR 0x09, CHR '' ''] ''secret''
        (Returns ()) (Returns ()) (Returns (role_response built_policy))) = [])
   \<and> exit_code (main (fixed_env [CHR '' '', CHR 0x09, CHR '' ''] ''secret''
        (Returns ()) (Returns ()) (Returns (role_response built_policy)))) = 1
   \<and> calls (main (fixed_env [CHR '' '', CHR 0x09, CHR '' ''] ''secret''
        (Returns ()) (Returns ()) (Returns (role_response built_policy)))) = []"
proof -
  let ?env = "fixed_env [CHR '' '', CHR 0x09, CHR '' ''] ''secret''
        (Returns ()) (Returns ()) (Returns (role_response built_policy))"
  have h: "strip (input_reply ?env) = [] \<or> getpass_reply ?env = []"
    by (simp add: fixed_env_def strip_blank)
  show ?thesis
    using h empty_credentials_exit [OF h] by simp
qed

text \<open>
  C6. When the update raises a \<^verbatim>\<open>ClientError\<close>, as it does for AccessDenied and for a
  role that does not exist, the run is over: the exit code is 1, the update was called
  once and \<^verbatim>\<open>get_role\<close> not at all, and the last message carries the text of the error
  unchanged.
\<close>

theorem update_client_error_is_fatal:
  assumes "strip (input_reply env) \<noteq> []" and "getpass_reply env \<noteq> []"
    and "client_reply env = Returns iam_client"
    and "fst (update_reply env iam_client) = ClientError e"
  shows "exit_code (main env) = 1
         \<and> calls (main env) = [client_call env, update_call]
         \<and> last (printed (main env)) = cross_mark @ '' Failed to update trust policy: '' @ e"
proof -
  obtain iam_client' where "update_reply env iam_client = (ClientError e, iam_client')"
    using assms(4) by (cases "update_reply env iam_client") simp
  with assms(1-3) show ?thesis
    by (simp add: main_def Let_def)
qed

theorem update_client_error_is_fatal_witness:
  "strip (input_reply (fixed_env ''AKIAEXAMPLE'' ''secret'' (Returns ())
       (ClientError access_denied) (Returns (role_response built_policy)))) \<noteq> []
   \<and> exit_code (main (fixed_env ''AKIAEXAMPLE'' ''secret'' (Returns ())
       (ClientError access_denied) (Returns (role_response built_policy)))) = 1
   \<and> calls (main (fixed_env ''AKIAEXAMPLE'' ''secret'' (Returns ())
       (ClientError access_denied) (Returns (role_response built_policy))))
       = [Boto3Client ''iam'' ''us-east-1'' ''AKIAEXAMPLE'' ''secret'', update_call]
   \<and> last (printed (main (fixed_env ''AKIAEXAMPLE'' ''secret'' (Returns ())
       (ClientError access_denied) (Returns (role_response built_policy)))))
       = cross_mark @ '' Failed to update trust policy: '' @ access_denied"
proof -
  let ?env = "fixed_env ''AKIAEXAMPLE'' ''secret'' (Returns ())
       (ClientError access_denied) (Returns (role_response built_policy))"
  have h1: "strip (input_reply ?env) \<noteq> []"
    by (simp add: fixed_env_def strip_key)
  have h2: "getpass_reply ?env \<noteq> []"
    by (simp add: fixed_env_def)
  have h3: "client_reply ?env = Returns ()"
    by (simp add: fixed_env_def)
  have h4: "fst (update_reply ?env ()) = ClientError access_denied"
    by (simp add: fixed_env_def)
  have s: "strip (input_reply ?env) = ''AKIAEXAMPLE''" "getpass_reply ?env = ''secret''"
    by (simp_all add: fixed_env_def strip_key)
  show ?thesis
    using h1 update_client_error_is_fatal [OF h1 h2 h3 h4] by (simp add: s)
qed

text \<open>
  C7. In every run the update is called at most once, and \<^verbatim>\<open>get_role\<close> is called only
  after the update has returned without an exception: a run that calls \<^verbatim>\<open>get_role\<close> has
  made exactly the calls client, update, \<^verbatim>\<open>get_role\<close>, in this order, and its update
  returned.
\<close>

theorem update_once_before_fetch:
  "length (filter is_update (calls (main env))) \<le> 1
   \<and> (\<forall>c \<in> set (calls (main env)). is_get_role c \<longrightarrow>
         calls (main env) = [client_call env, update_call, c]
         \<and> (\<exists>iam_client. client_reply env = Returns iam_client
               \<and> fst (update_reply env iam_client) = Returns ()))"
  by (simp add: calls_main split: reply.split)

theorem update_once_before_fetch_witness:
  "length (filter is_update (calls (main (flaky_env 0)))) \<le> 1
   \<and> get_role_call \<in> set (calls (main (flaky_env 0)))
   \<and> is_get_role get_role_call
   \<and> calls (main (flaky_env 0))
       = [Boto3Client ''iam'' ''us-east-1'' ''AKIAEXAMPLE'' ''secret'', update_call, get_role_call]
   \<and> fst (update_reply (flaky_env 0) 0) = Returns ()"
proof -
  have c: "calls (main (flaky_env 0))
       = [Boto3Client ''iam'' ''us-east-1'' ''AKIAEXAMPLE'' ''secret'', update_call, get_role_call]"
    by (simp add: calls_main flaky_env_def strip_key)
  have m: "get_role_call \<in> set (calls (main (flaky_env 0)))"
    by (simp add: c)
  have u: "fst (update_reply (flaky_env 0) 0) = Returns ()"
    by (simp add: flaky_env_def)
  show ?thesis
    using update_once_before_fetch [of "flaky_env 0"] m c u by simp
qed

text \<open>
  C10. Every run addresses the same role with the same document: whatever the
  environment, each call a run makes is the construction of the client for the service
  \<^verbatim>\<open>iam\<close> in the region \<^verbatim>\<open>us-east-1\<close>, the update of the role \<^verbatim>\<open>github-actions-role\<close>
  with the document built for the account \<^verbatim>\<open>422017356244\<close> and the repository
  \<^verbatim>\<open>cloudtolocalllm/cloudtolocalllm\<close>, or \<^verbatim>\<open>get_role\<close> on \<^verbatim>\<open>github-actions-role\<close>. Only
  the credentials come from outside.
\<close>

theorem fixed_configuration:
  "set (calls (main env)) \<subseteq>
     {Boto3Client ''iam'' ''us-east-1'' (strip (input_reply env)) (getpass_reply env),
      UpdateAssumeRolePolicy ''github-actions-role''
        (json_dumps None
           (create_trust_policy ''422017356244'' ''cloudtolocalllm/cloudtolocalllm'')),
      GetRole ''github-actions-role''}"
  by (simp add: calls_main split: reply.split)

theorem fixed_configuration_witness:
  "set (calls (main (flaky_env 0))) \<subseteq>
     {Boto3Client ''iam'' ''us-east-1'' ''AKIAEXAMPLE'' ''secret'',
      UpdateAssumeRolePolicy ''github-actions-role''
        (json_dumps None
           (create_trust_policy ''422017356244'' ''cloudtolocalllm/cloudtolocalllm'')),
      GetRole ''github-actions-role''}
   \<and> UpdateAssumeRolePolicy ''github-actions-role''
        (json_dumps None
           (create_trust_policy ''422017356244'' ''cloudtolocalllm/cloudtolocalllm''))
       \<in> set (calls (main (flaky_env 0)))
   \<and> GetRole ''github-actions-role'' \<in> set (calls (main (flaky_env 0)))"
proof -
  have s: "strip (input_reply (flaky_env 0)) = ''AKIAEXAMPLE''"
    "getpass_reply (flaky_env 0) = ''secret''"
    by (simp_all add: flaky_env_def strip_key)
  have c: "calls (main (flaky_env 0))
       = [Boto3Client ''iam'' ''us-east-1'' ''AKIAEXAMPLE'' ''secret'', update_call, get_role_call]"
    by (simp add: calls_main flaky_env_def strip_key)
  show ?thesis
    using fixed_configuration [of "flaky_env 0"] by (simp add: s c)
qed

text \<open>
  C8. The builder is a function of its two arguments and of nothing else: it reads no
  state and makes no call, and equal arguments give equal documents.
\<close>

theorem create_trust_policy_deterministic:
  assumes "account_id = account_id'" and "github_repo = github_repo'"
  shows "create_trust_policy account_id github_repo
         = create_trust_policy account_id' github_repo'"
  using assms by simp

theorem create_trust_policy_deterministic_witness:
  "''123456789012'' = ''123456789012'' \<and> ''acme/widget'' = ''acme/widget''
   \<and> create_trust_policy ''123456789012'' ''acme/widget''
       = create_trust_policy ''123456789012'' ''acme/widget''"
proof -
  have a: "''123456789012'' = ''123456789012''" and r: "''acme/widget'' = ''acme/widget''"
    by simp_all
  show ?thesis
    using create_trust_policy_deterministic [OF a r] by simp
qed

subsection \<open>What the builder does with malformed arguments\<close>

text \<open>
  C4, as the spec has it, fails: for an empty account id and the slug \<^verbatim>\<open>acme\<close>, which has
  no slash, the builder does not fail but returns a document, with the principal
  \<^verbatim>\<open>arn:aws:iam:::oidc-provider/token.actions.githubusercontent.com\<close> and the \<^verbatim>\<open>sub\<close>
  pattern \<^verbatim>\<open>repo:acme:*\<close>.
\<close>

theorem create_trust_policy_accepts_malformed:
  "create_trust_policy [] ''acme'' =
     JObj [
       (''Version'', JStr ''2012-10-17''),
       (''Statement'', JList [
         JObj [
           (''Effect'', JStr ''Allow''),
           (''Principal'', JObj [
             (''Federated'',
                JStr ''arn:aws:iam:::oidc-provider/token.actions.githubusercontent.com'')]),
           (''Action'', JStr ''sts:AssumeRoleWithWebIdentity''),
           (''Condition'', JObj [
             (''StringEquals'', JObj [
               (''token.actions.githubusercontent.com:aud'', JStr ''sts.amazonaws.com'')]),
             (''StringLike'', JObj [
               (''token.actions.githubusercontent.com:sub'', JStr ''repo:acme:*'')])])]])]"
  by (simp add: create_trust_policy_def)

text \<open>
  C4, amended. The builder checks nothing and never fails: for every account id and
  every slug, empty or without a slash as they may be, it returns a document with one
  statement, whose principal and \<^verbatim>\<open>sub\<close> pattern hold the two arguments as they were
  given. The role name and the region are no arguments of the builder.
\<close>

theorem create_trust_policy_total:
  "\<exists>stmt. create_trust_policy account_id github_repo
            = JObj [(''Version'', JStr ''2012-10-17''), (''Statement'', JList [stmt])]
     \<and> path stmt [''Principal'', ''Federated'']
         = Some (JStr (''arn:aws:iam::'' @ account_id @
                   '':oidc-provider/token.actions.githubusercontent.com''))
     \<and> path stmt [''Condition'', ''StringLike'', ''token.actions.githubusercontent.com:sub'']
         = Some (JStr (''repo:'' @ github_repo @ '':*''))"
  by (simp add: create_trust_policy_def)

subsection \<open>The verify phase\<close>

text \<open>The two fake clients above pass the credentials test and get their client.\<close>

lemma mismatch_env_simps:
  "strip (input_reply mismatch_env) = ''AKIAEXAMPLE''"
  "getpass_reply mismatch_env = ''secret''"
  "boto3_client mismatch_env service region_name key_id secret_key = Returns ()"
  "update_assume_role_policy mismatch_env s role_name policy_document = (Returns (), s)"
  "get_role mismatch_env s role_name = (Returns (role_response foreign_policy), s)"
  by (simp_all add: mismatch_env_def fixed_env_def strip_key)

lemma fetch_error_env_simps:
  "strip (input_reply fetch_error_env) = ''AKIAEXAMPLE''"
  "getpass_reply fetch_error_env = ''secret''"
  "boto3_client fetch_error_env service region_name key_id secret_key = Returns ()"
  "update_assume_role_policy fetch_error_env s role_name policy_document = (Returns (), s)"
  "get_role fetch_error_env s role_name = (ClientError throttled, s)"
  by (simp_all add: fetch_error_env_def fixed_env_def strip_key)

lemma foreign_policy_differs: "foreign_policy \<noteq> built_policy"
  by (simp add: foreign_policy_def create_trust_policy_def)

text \<open>
  C2, as the spec has it, fails: when the update succeeds and \<^verbatim>\<open>get_role\<close> returns a
  document with another \<^verbatim>\<open>sub\<close> pattern than the one built, the run does not report a
  failed verification. From the verify phase on it prints that the trust policy is
  verified, the fetched document, and that the policy was applied successfully.
\<close>

theorem verify_accepts_other_policy:
  "foreign_policy \<noteq> built_policy
   \<and> fst (get_role_reply mismatch_env ()) = Returns (role_response foreign_policy)
   \<and> drop 18 (printed (main mismatch_env))
       = [check_mark @ '' Trust policy verified'', [], ''Current Trust Policy:'',
          json_dumps (Some 2) foreign_policy,
          [], check_mark @ '' OIDC trust policy applied successfully'', [], ''Next steps:'',
          ''1. Trigger Deploy to AWS EKS workflow in GitHub'',
          ''2. Monitor the workflow'',
          ''3. Delete the root API key'']"
  by (simp add: foreign_policy_differs mismatch_env_simps main_def Let_def role_response_def)

text \<open>
  C2, amended. After the update has returned, the verify phase calls \<^verbatim>\<open>get_role\<close> once
  and compares nothing. If the response holds a document under
  \<^verbatim>\<open>Role.AssumeRolePolicyDocument\<close>, whatever document it is, the run prints that the
  trust policy is verified and then the document; if \<^verbatim>\<open>get_role\<close> raises, the run prints
  a warning with the text of the error. In both cases the run ends with the same closing
  lines, and its calls are client, update, \<^verbatim>\<open>get_role\<close>: no further update is made.
\<close>

theorem verify_prints_what_it_fetched:
  assumes "strip (input_reply env) \<noteq> []" and "getpass_reply env \<noteq> []"
    and "client_reply env = Returns iam_client"
    and "update_reply env iam_client = (Returns (), iam_client')"
  shows "calls (main env) = [client_call env, update_call, get_role_call]
    \<and> (\<forall>response role current_policy.
          fst (get_role_reply env iam_client') = Returns response
          \<and> map_of response ''Role'' = Some role
          \<and> map_of role ''AssumeRolePolicyDocument'' = Some current_policy \<longrightarrow>
          drop 18 (printed (main env))
            = [check_mark @ '' Trust policy verified'', [], ''Current Trust Policy:'',
               json_dumps (Some 2) current_policy] @ closing_lines)
    \<and> (\<forall>e. fst (get_role_reply env iam_client') = ClientError e \<longrightarrow>
          drop 18 (printed (main env))
            = [warning_sign @ '' Could not verify trust policy: '' @ e] @ closing_lines)
    \<and> (\<forall>e. fst (get_role_reply env iam_client') = OtherException e \<longrightarrow>
          drop 18 (printed (main env))
            = [warning_sign @ '' Error verifying: '' @ e] @ closing_lines)"
  using assms by (simp add: main_def Let_def closing_lines_def)

theorem verify_prints_what_it_fetched_witness:
  "strip (input_reply mismatch_env) \<noteq> [] \<and> getpass_reply mismatch_env \<noteq> []
   \<and> client_reply mismatch_env = Returns ()
   \<and> update_reply mismatch_env () = (Returns (), ())
   \<and> calls (main mismatch_env)
       = [Boto3Client ''iam'' ''us-east-1'' ''AKIAEXAMPLE'' ''secret'', update_call, get_role_call]
   \<and> drop 18 (printed (main mismatch_env))
       = [check_mark @ '' Trust policy verified'', [], ''Current Trust Policy:'',
          json_dumps (Some 2) foreign_policy] @ closing_lines"
proof -
  have h1: "strip (input_reply mismatch_env) \<noteq> []"
    and h2: "getpass_reply mismatch_env \<noteq> []"
    and h3: "client_reply mismatch_env = Returns ()"
    and h4: "update_reply mismatch_env () = (Returns (), ())"
    by (simp_all add: mismatch_env_simps)
  have g: "fst (get_role_reply mismatch_env ()) = Returns (role_response foreign_policy)"
    "map_of (role_response foreign_policy) ''Role''
       = Some [(''RoleName'', JStr ''github-actions-role''),
               (''AssumeRolePolicyDocument'', foreign_policy)]"
    "map_of [(''RoleName'', JStr ''github-actions-role''),
             (''AssumeRolePolicyDocument'', foreign_policy)] ''AssumeRolePolicyDocument''
       = Some foreign_policy"
    by (simp_all add: mismatch_env_simps role_response_def)
  show ?thesis
    using h1 h2 h3 h4 g verify_prints_what_it_fetched [OF h1 h2 h3 h4]
    by (simp add: mismatch_env_simps)
qed

subsection \<open>The exit code\<close>

text \<open>
  C3, as the spec has it, fails: the exit code is 0 although the update succeeded and the
  fetched policy differs from the built one, and it is 0 as well when \<^verbatim>\<open>get_role\<close>
  raises.
\<close>

theorem exit_code_zero_without_verification:
  "foreign_policy \<noteq> built_policy
   \<and> fst (get_role_reply mismatch_env ()) = Returns (role_response foreign_policy)
   \<and> exit_code (main mismatch_env) = 0
   \<and> fst (get_role_reply fetch_error_env ()) = ClientError throttled
   \<and> exit_code (main fetch_error_env) = 0"
  by (simp add: foreign_policy_differs exit_code_main mismatch_env_simps fetch_error_env_simps)

text \<open>
  C3, amended. The exit code is 0 exactly when the update returned: the credentials are
  not empty, the client was constructed and the update raised nothing. What \<^verbatim>\<open>get_role\<close>
  returns or raises has no part in it. In every other run the exit code is 1.
\<close>

theorem exit_code_zero_iff_update_returned:
  "exit_code (main env) =
     (if strip (input_reply env) \<noteq> [] \<and> getpass_reply env \<noteq> []
         \<and> (\<exists>iam_client. client_reply env = Returns iam_client
               \<and> fst (update_reply env iam_client) = Returns ())
      then 0 else 1)"
  by (simp add: exit_code_main split: reply.split)

theorem exit_code_zero_iff_update_returned_witness:
  "exit_code (main fetch_error_env) = 0
   \<and> strip (input_reply fetch_error_env) \<noteq> [] \<and> getpass_reply fetch_error_env \<noteq> []
   \<and> client_reply fetch_error_env = Returns ()
   \<and> fst (update_reply fetch_error_env ()) = Returns ()"
proof -
  have h: "strip (input_reply fetch_error_env) \<noteq> [] \<and> getpass_reply fetch_error_env \<noteq> []
     \<and> client_reply fetch_error_env = Returns ()
     \<and> fst (update_reply fetch_error_env ()) = Returns ()"
    by (simp add: fetch_error_env_simps)
  then have "strip (input_reply fetch_error_env) \<noteq> [] \<and> getpass_reply fetch_error_env \<noteq> []
     \<and> (\<exists>iam_client. client_reply fetch_error_env = Returns iam_client
           \<and> fst (update_reply fetch_error_env iam_client) = Returns ())"
    by blast
  then have "exit_code (main fetch_error_env) = 0"
    using exit_code_zero_iff_update_returned [of fetch_error_env] by presburger
  with h show ?thesis by simp
qed

subsection \<open>Retries\<close>

lemma flaky_env_simps:
  "strip (input_reply (flaky_env N)) = ''AKIAEXAMPLE''"
  "getpass_reply (flaky_env N) = ''secret''"
  "boto3_client (flaky_env N) service region_name key_id secret_key = Returns 0"
  "update_assume_role_policy (flaky_env N) k role_name policy_document
     = (if k < N then ClientError service_unavailable else Returns (), Suc k)"
  by (simp_all add: flaky_env_def strip_key)

text \<open>
  C5, as the spec has it, fails for the script, which is where the spec puts the retry
  policy: with a client object whose update method raises ServiceUnavailable on its
  first invocation and would return on the second, the script invokes the method once,
  does not invoke it again and ends with exit code 1.
\<close>

theorem script_does_not_reinvoke_update:
  "fst (update_assume_role_policy (flaky_env 1) 0 ''github-actions-role''
          (json_dumps None built_policy)) = ClientError service_unavailable
   \<and> fst (update_assume_role_policy (flaky_env 1) 1 ''github-actions-role''
          (json_dumps None built_policy)) = Returns ()
   \<and> calls (main (flaky_env 1))
       = [Boto3Client ''iam'' ''us-east-1'' ''AKIAEXAMPLE'' ''secret'', update_call]
   \<and> exit_code (main (flaky_env 1)) = 1"
  by (simp add: calls_main exit_code_main flaky_env_simps)

text \<open>
  C5, amended. The script has no retry loop of its own. In every run it invokes the
  update method of the client at most once and \<^verbatim>\<open>get_role\<close> at most once, and an
  exception that reaches it from the update method, a \<^verbatim>\<open>ClientError\<close> such as
  ServiceUnavailable or any other exception, is final: the method is not invoked again,
  \<^verbatim>\<open>get_role\<close> is not invoked and the exit code is 1. What the client library does
  inside one invocation before it returns or raises is not the script's and is left
  open.
\<close>

theorem script_has_no_retry_loop:
  "(\<forall>iam_client e.
      strip (input_reply env) \<noteq> [] \<and> getpass_reply env \<noteq> []
      \<and> client_reply env = Returns iam_client
      \<and> (fst (update_reply env iam_client) = ClientError e
           \<or> fst (update_reply env iam_client) = OtherException e) \<longrightarrow>
      calls (main env) = [client_call env, update_call] \<and> exit_code (main env) = 1)
   \<and> length (filter is_update (calls (main env))) \<le> 1
   \<and> length (filter is_get_role (calls (main env))) \<le> 1"
  by (auto simp add: calls_main exit_code_main split: reply.split)

theorem script_has_no_retry_loop_witness:
  "strip (input_reply (flaky_env 2)) \<noteq> [] \<and> getpass_reply (flaky_env 2) \<noteq> []
   \<and> client_reply (flaky_env 2) = Returns 0
   \<and> fst (update_reply (flaky_env 2) 0) = ClientError service_unavailable
   \<and> calls (main (flaky_env 2))
       = [Boto3Client ''iam'' ''us-east-1'' ''AKIAEXAMPLE'' ''secret'', update_call]
   \<and> exit_code (main (flaky_env 2)) = 1"
proof -
  have h: "strip (input_reply (flaky_env 2)) \<noteq> [] \<and> getpass_reply (flaky_env 2) \<noteq> []
     \<and> client_reply (flaky_env 2) = Returns 0
     \<and> (fst (update_reply (flaky_env 2) 0) = ClientError service_unavailable
          \<or> fst (update_reply (flaky_env 2) 0) = OtherException service_unavailable)"
    by (simp add: flaky_env_simps)
  have "calls (main (flaky_env 2)) = [client_call (flaky_env 2), update_call]
     \<and> exit_code (main (flaky_env 2)) = 1"
    using h script_has_no_retry_loop [of "flaky_env 2"] by blast
  then show ?thesis
    by (simp add: flaky_env_simps)
qed

end
